theory Spec2Isabelle
  imports Main
begin

section \<open>Go values used by the WebSocket client\<close>

text \<open>
  The development embeds \<^verbatim>\<open>client/websocket_client.go\<close>. Go strings and byte slices are
  \<^typ>\<open>string\<close>; Go's 64-bit \<^verbatim>\<open>int\<close> is \<^typ>\<open>int\<close> with the wrap-around of \<^verbatim>\<open>++\<close> written
  out; an \<^verbatim>\<open>error\<close> value is a term of the datatype \<open>error\<close>, where \<open>Errorf p e\<close> is
  \<^verbatim>\<open>fmt.Errorf("p: %w", e)\<close>, \<open>ErrorNew p\<close> an error without a cause, and \<open>CloseError code text\<close>
  the websocket library's \<^verbatim>\<open>*CloseError\<close> with its close code and text.
\<close>

type_synonym bytes = string

definition int64_wrap :: "int \<Rightarrow> int" where
  "int64_wrap x = (x + 2 ^ 63) mod 2 ^ 64 - 2 ^ 63"

datatype error = ErrorNew string | Errorf string error | CloseError int string

type_synonym conn_handle = nat

datatype json = JString string | JStrings "string list"

record ApiKeyCreds =
  Key :: string
  Secret :: string
  Passphrase :: string

text \<open>
  Modelled from the spec: the decoded event of package \<^verbatim>\<open>types\<close> (its declaration is not
  among the sources): a tagged union over book snapshot, price-change batch, tick-size
  change and last-trade-price, with a variant inspection (\<open>GetEventType\<close>) and one
  down-cast per variant, which succeeds exactly on its own variant. The payload of a
  variant is kept as the raw text it was decoded from.
\<close>

datatype MarketChannelMessage =
    BookMessage bytes
  | PriceChangeMessage bytes
  | TickSizeChangeMessage bytes
  | LastTradePriceMessage bytes

text \<open>
  Modelled from the spec: the event kinds named by the discriminator field (the constants
  \<^verbatim>\<open>types.EventTypeBook\<close> and so on are not among the sources), one per variant.
\<close>

datatype EventType =
    EventTypeBook | EventTypePriceChange | EventTypeTickSizeChange | EventTypeLastTradePrice

text \<open>
  Modelled from the spec: the variant inspection \<^verbatim>\<open>GetEventType\<close> of a decoded event (not among
  the sources) returns the kind of its variant.
\<close>

fun GetEventType :: "MarketChannelMessage \<Rightarrow> EventType" where
  "GetEventType (BookMessage b) = EventTypeBook"
| "GetEventType (PriceChangeMessage b) = EventTypePriceChange"
| "GetEventType (TickSizeChangeMessage b) = EventTypeTickSizeChange"
| "GetEventType (LastTradePriceMessage b) = EventTypeLastTradePrice"

text \<open>
  Modelled from the spec: the four down-casts \<^verbatim>\<open>AsBookMessage\<close>, \<^verbatim>\<open>AsPriceChangeMessage\<close>,
  \<^verbatim>\<open>AsTickSizeChangeMessage\<close> and \<^verbatim>\<open>AsLastTradePriceMessage\<close> (not among the sources); \<open>None\<close> is
  \<^verbatim>\<open>ok == false\<close>.
\<close>

fun AsBookMessage :: "MarketChannelMessage \<Rightarrow> bytes option" where
  "AsBookMessage (BookMessage b) = Some b"
| "AsBookMessage m = None"

fun AsPriceChangeMessage :: "MarketChannelMessage \<Rightarrow> bytes option" where
  "AsPriceChangeMessage (PriceChangeMessage b) = Some b"
| "AsPriceChangeMessage m = None"

fun AsTickSizeChangeMessage :: "MarketChannelMessage \<Rightarrow> bytes option" where
  "AsTickSizeChangeMessage (TickSizeChangeMessage b) = Some b"
| "AsTickSizeChangeMessage m = None"

fun AsLastTradePriceMessage :: "MarketChannelMessage \<Rightarrow> bytes option" where
  "AsLastTradePriceMessage (LastTradePriceMessage b) = Some b"
| "AsLastTradePriceMessage m = None"

text \<open>
  The two decoders the read-loop calls are outside the sources
  (\<^verbatim>\<open>json.Unmarshal\<close> into \<^verbatim>\<open>[]json.RawMessage\<close> and \<^verbatim>\<open>types.ParseMarketChannelMessage\<close>),
  so every function that decodes takes them as a parameter of this type.
  \<open>Unmarshal_RawMessages d = None\<close> is \<^verbatim>\<open>err != nil\<close>.
\<close>

record codec =
  Unmarshal_RawMessages :: "bytes \<Rightarrow> bytes list option"
  ParseMarketChannelMessage :: "bytes \<Rightarrow> error + MarketChannelMessage"

section \<open>The client's state\<close>

record WebSocketClientOptions =
  AssetIDs :: "string list"
  Markets :: "string list"
  AutoReconnect :: bool
  ReconnectDelay :: int
  MaxReconnectAttempts :: int
  Debug :: bool
  ProxyUrl :: string

text \<open>A callback field is \<open>True\<close> when the Go field is not \<^verbatim>\<open>nil\<close>.\<close>

record WebSocketCallbacks =
  OnBook :: bool
  OnPriceChange :: bool
  OnTickSizeChange :: bool
  OnLastTradePrice :: bool
  OnMessage :: bool
  OnError :: bool
  OnConnect :: bool
  OnDisconnect :: bool
  OnReconnect :: bool

text \<open>
  \<open>reconnectTimer\<close> is \<open>None\<close> for \<^verbatim>\<open>nil\<close>; a timer created by \<^verbatim>\<open>time.AfterFunc\<close> is
  \<open>Pending n\<close> until it fires (\<open>n\<close> the attempt it was scheduled for) and \<open>Expired\<close>
  afterwards.

  \<open>mu\<close> is the \<^verbatim>\<open>sync.RWMutex\<close> as it stands between two calls. Every function of the client
  releases the lock before it returns, so between calls it is \<open>Unlocked\<close>, unless a
  goroutine blocked while holding it: Go's \<^verbatim>\<open>RWMutex\<close> is not reentrant, and a goroutine
  that calls \<^verbatim>\<open>RLock\<close> while it holds \<^verbatim>\<open>Lock\<close> waits for its own \<^verbatim>\<open>Unlock\<close> for ever. From then
  on the mutex is \<open>WriteLocked\<close> and every later \<^verbatim>\<open>Lock\<close> or \<^verbatim>\<open>RLock\<close> blocks as well.
\<close>

datatype timer = Pending int | Expired

datatype rwmutex = Unlocked | WriteLocked

record WebSocketClient =
  options :: WebSocketClientOptions
  callbacks :: WebSocketCallbacks
  conn :: "conn_handle option"
  pingTicker :: bool
  reconnectTimer :: "timer option"
  reconnectAttempts :: int
  isConnecting :: bool
  shouldReconnect :: bool
  mu :: rwmutex

section \<open>Effects\<close>

text \<open>
  What a call does to the outside is the list of events it returns, in program order:
  calls to collaborators (credential provider, dialer, connection, timers), goroutines
  started, and callbacks invoked. Logging (\<^verbatim>\<open>ws.log\<close>) writes to the logger only and is left
  out. The bodies of the callbacks belong to the caller and are not executed.
\<close>

datatype event =
    Call_DeriveApiKey
  | Call_Dial string "string option"
  | Call_WriteJSON conn_handle "(string \<times> json) list"
  | Call_Close conn_handle
  | Call_AfterFunc int int
  | Go_handleMessages
  | Go_pingLoop
  | Invoke_OnBook bytes
  | Invoke_OnPriceChange bytes
  | Invoke_OnTickSizeChange bytes
  | Invoke_OnLastTradePrice bytes
  | Invoke_OnMessage MarketChannelMessage
  | Invoke_OnError error
  | Invoke_OnConnect
  | Invoke_OnDisconnect int string
  | Invoke_OnReconnect int

text \<open>
  The results of the collaborators during one call of the client: what
  \<^verbatim>\<open>DeriveApiKey\<close>, \<^verbatim>\<open>url.Parse\<close>, \<^verbatim>\<open>dialer.Dial\<close> and \<^verbatim>\<open>conn.WriteJSON\<close> return if they are
  called (each at most once per call).
\<close>

record env =
  DeriveApiKey_result :: "error + ApiKeyCreds"
  url_Parse_result :: "error + string"
  Dial_result :: "error + conn_handle"
  WriteJSON_result :: "error option"

text \<open>
  A call either returns a value, or never returns because it waits for the mutex
  (\<open>Deadlock\<close>), or, for the read-loop, is still waiting in \<^verbatim>\<open>ReadMessage\<close> when the frames
  supplied are used up (\<open>AwaitsInput\<close>).
\<close>

datatype 'r outcome = Returns 'r | Deadlock | AwaitsInput

type_synonym 'r res = "'r outcome \<times> WebSocketClient \<times> event list"

definition and_then :: "'a res \<Rightarrow> (WebSocketClient \<Rightarrow> 'b res) \<Rightarrow> 'b res" where
  "and_then r k =
     (case r of
        (Returns x, ws, tr) \<Rightarrow> (case k ws of (out, ws', tr') \<Rightarrow> (out, ws', tr @ tr'))
      | (Deadlock, ws, tr) \<Rightarrow> (Deadlock, ws, tr)
      | (AwaitsInput, ws, tr) \<Rightarrow> (AwaitsInput, ws, tr))"

section \<open>Construction and subscription\<close>

definition NewWebSocketClient :: "WebSocketClientOptions option \<Rightarrow> WebSocketClient" where
  "NewWebSocketClient opts =
     (let options0 = (case opts of
                        None \<Rightarrow> \<lparr>AssetIDs = [], Markets = [], AutoReconnect = False,
                                 ReconnectDelay = 0, MaxReconnectAttempts = 0, Debug = False,
                                 ProxyUrl = []\<rparr>
                      | Some given \<Rightarrow> given);
          options1 = (if AutoReconnect options0 \<and> ReconnectDelay options0 = 0
                      then options0\<lparr>ReconnectDelay := 5 * 1000000000\<rparr> else options0)
      in \<lparr>options = options1,
          callbacks = \<lparr>OnBook = False, OnPriceChange = False, OnTickSizeChange = False,
                       OnLastTradePrice = False, OnMessage = False, OnError = False,
                       OnConnect = False, OnDisconnect = False, OnReconnect = False\<rparr>,
          conn = None, pingTicker = False, reconnectTimer = None, reconnectAttempts = 0,
          isConnecting = False, shouldReconnect = True, mu = Unlocked\<rparr>)"

definition On :: "WebSocketCallbacks \<Rightarrow> WebSocketClient \<Rightarrow> WebSocketClient" where
  "On cbs ws = ws\<lparr>callbacks := cbs\<rparr>"

text \<open>\<open>IsConnected\<close> takes the read lock: \<open>None\<close> when it never gets it.\<close>

definition IsConnected :: "WebSocketClient \<Rightarrow> bool option" where
  "IsConnected ws = (if mu ws = WriteLocked then None else Some (conn ws \<noteq> None))"

definition subscribe_message :: "string list \<Rightarrow> (string \<times> json) list" where
  "subscribe_message assetIDs = [(''assets_ids'', JStrings assetIDs), (''type'', JString ''market'')]"

definition sendSubscription :: "env \<Rightarrow> WebSocketClient \<Rightarrow> error option res" where
  "sendSubscription en ws =
     (if mu ws = WriteLocked then (Deadlock, ws, [])
      else case conn ws of
             None \<Rightarrow> (Returns (Some (ErrorNew ''not connected'')), ws, [])
           | Some c \<Rightarrow>
               (Returns (WriteJSON_result en), ws,
                [Call_WriteJSON c (subscribe_message (AssetIDs (options ws)))]))"

definition Subscribe :: "env \<Rightarrow> string list \<Rightarrow> WebSocketClient \<Rightarrow> error option res" where
  "Subscribe en assetIDs ws =
     (if mu ws = WriteLocked then (Deadlock, ws, [])
      else
        let ws1 = ws\<lparr>options := (options ws)\<lparr>AssetIDs := AssetIDs (options ws) @ assetIDs\<rparr>\<rparr>
        in case IsConnected ws1 of
             None \<Rightarrow> (Deadlock, ws1, [])
           | Some True \<Rightarrow> sendSubscription en ws1
           | Some False \<Rightarrow> (Returns None, ws1, []))"

text \<open>
  \<open>Unsubscribe\<close>: the inner loop over the identifiers to remove, with its \<^verbatim>\<open>break\<close>, and
  the outer loop over the current list, appending to \<open>filtered\<close>.
\<close>

fun shouldKeep :: "string \<Rightarrow> string list \<Rightarrow> bool" where
  "shouldKeep a [] = True"
| "shouldKeep a (unsubID # rest) = (if a = unsubID then False else shouldKeep a rest)"

fun Unsubscribe_loop :: "string list \<Rightarrow> string list \<Rightarrow> string list \<Rightarrow> string list" where
  "Unsubscribe_loop [] assetIDs filtered = filtered"
| "Unsubscribe_loop (a # rest) assetIDs filtered =
     Unsubscribe_loop rest assetIDs (if shouldKeep a assetIDs then filtered @ [a] else filtered)"

definition Unsubscribe :: "string list \<Rightarrow> WebSocketClient \<Rightarrow> unit res" where
  "Unsubscribe assetIDs ws =
     (if mu ws = WriteLocked then (Deadlock, ws, [])
      else (Returns (),
            ws\<lparr>options := (options ws)\<lparr>AssetIDs := Unsubscribe_loop (AssetIDs (options ws)) assetIDs []\<rparr>\<rparr>,
            []))"

section \<open>Connecting and disconnecting\<close>

definition wsURL :: string where
  "wsURL = ''wss://ws-subscriptions-clob.polymarket.com''"

definition emit :: "event list \<Rightarrow> 'r res \<Rightarrow> 'r res" where
  "emit tr r = (case r of (out, ws, tr') \<Rightarrow> (out, ws, tr @ tr'))"

text \<open>
  The guard of \<open>Connect\<close>, \<^verbatim>\<open>ws.isConnecting || (ws.conn != nil && ws.IsConnected())\<close>, is
  evaluated after \<^verbatim>\<open>ws.mu.Lock()\<close>, left to right with short-circuit. Its last operand
  calls \<open>IsConnected\<close>, which asks for the read lock of the mutex this goroutine holds:
  the result \<open>None\<close> is the goroutine blocked for ever, with the lock held.
\<close>

definition Connect_guard :: "WebSocketClient \<Rightarrow> bool option" where
  "Connect_guard ws =
     (if isConnecting ws then Some True
      else if conn ws = None then Some False
      else IsConnected (ws\<lparr>mu := WriteLocked\<rparr>))"

text \<open>
  The rest of \<open>Connect\<close>, from the credential derivation on. \<^verbatim>\<open>go ws.pingLoop()\<close> is the
  event \<open>Go_pingLoop\<close> together with the first thing that goroutine does, storing its
  ticker.
\<close>

definition Connect_dial :: "env \<Rightarrow> WebSocketClient \<Rightarrow> error option res" where
  "Connect_dial en ws =
     (case DeriveApiKey_result en of
        Inl err \<Rightarrow>
          (Returns (Some (Errorf ''failed to derive API key'' err)),
           ws\<lparr>isConnecting := False\<rparr>, [Call_DeriveApiKey])
      | Inr apiKey \<Rightarrow>
          (case (if ProxyUrl (options ws) \<noteq> []
                 then (case url_Parse_result en of Inl err \<Rightarrow> Inl err | Inr u \<Rightarrow> Inr (Some u))
                 else Inr None) of
             Inl err \<Rightarrow>
               (Returns (Some (Errorf ''failed to parse proxy url'' err)), ws, [Call_DeriveApiKey])
           | Inr proxy \<Rightarrow>
               (case Dial_result en of
                  Inl err \<Rightarrow>
                    (Returns (Some (Errorf ''failed to connect to WebSocket'' err)),
                     ws\<lparr>isConnecting := False\<rparr>,
                     [Call_DeriveApiKey, Call_Dial (wsURL @ ''/ws/market'') proxy])
                | Inr c \<Rightarrow>
                    emit [Call_DeriveApiKey, Call_Dial (wsURL @ ''/ws/market'') proxy]
                      (case sendSubscription en
                              (ws\<lparr>conn := Some c, isConnecting := False, reconnectAttempts := 0\<rparr>) of
                         (Returns (Some err), ws', tr) \<Rightarrow>
                           (Returns (Some (Errorf ''failed to send subscription'' err)), ws', tr)
                       | (Returns None, ws', tr) \<Rightarrow>
                           (Returns None, ws'\<lparr>pingTicker := True\<rparr>,
                            tr @ [Go_handleMessages, Go_pingLoop]
                               @ (if OnConnect (callbacks ws') then [Invoke_OnConnect] else []))
                       | (Deadlock, ws', tr) \<Rightarrow> (Deadlock, ws', tr)
                       | (AwaitsInput, ws', tr) \<Rightarrow> (AwaitsInput, ws', tr)))))"

definition Connect :: "env \<Rightarrow> WebSocketClient \<Rightarrow> error option res" where
  "Connect en ws =
     (if mu ws = WriteLocked then (Deadlock, ws, [])
      else case Connect_guard ws of
             None \<Rightarrow> (Deadlock, ws\<lparr>mu := WriteLocked\<rparr>, [])
           | Some True \<Rightarrow> (Returns None, ws, [])
           | Some False \<Rightarrow> Connect_dial en (ws\<lparr>isConnecting := True, shouldReconnect := True\<rparr>))"

definition cleanup :: "WebSocketClient \<Rightarrow> unit res" where
  "cleanup ws =
     (if mu ws = WriteLocked then (Deadlock, ws, [])
      else (Returns (), ws\<lparr>pingTicker := False, reconnectTimer := None\<rparr>, []))"

definition Disconnect :: "WebSocketClient \<Rightarrow> unit res" where
  "Disconnect ws =
     (if mu ws = WriteLocked then (Deadlock, ws, [])
      else and_then (cleanup (ws\<lparr>shouldReconnect := False\<rparr>))
             (\<lambda>ws1. if mu ws1 = WriteLocked then (Deadlock, ws1, [])
                    else case conn ws1 of
                           None \<Rightarrow> (Returns (), ws1, [])
                         | Some c \<Rightarrow> (Returns (), ws1\<lparr>conn := None\<rparr>, [Call_Close c])))"

section \<open>Errors, disconnects and the reconnect timer\<close>

definition handleError :: "error \<Rightarrow> WebSocketClient \<Rightarrow> event list" where
  "handleError err ws = (if OnError (callbacks ws) then [Invoke_OnError err] else [])"

definition scheduleReconnect :: "WebSocketClient \<Rightarrow> unit res" where
  "scheduleReconnect ws =
     (if mu ws = WriteLocked then (Deadlock, ws, [])
      else if MaxReconnectAttempts (options ws) > 0
              \<and> reconnectAttempts ws \<ge> MaxReconnectAttempts (options ws)
      then (Returns (), ws, [])
      else
        let attempt = int64_wrap (reconnectAttempts ws + 1);
            delay = ReconnectDelay (options ws)
        in (Returns (),
            ws\<lparr>reconnectAttempts := attempt, reconnectTimer := Some (Pending attempt)\<rparr>,
            (if OnReconnect (callbacks ws) then [Invoke_OnReconnect attempt] else [])
              @ [Call_AfterFunc delay attempt]))"

definition handleDisconnect :: "int \<Rightarrow> string \<Rightarrow> WebSocketClient \<Rightarrow> unit res" where
  "handleDisconnect code reason ws =
     and_then (cleanup ws)
       (\<lambda>ws1. emit (if OnDisconnect (callbacks ws1) then [Invoke_OnDisconnect code reason] else [])
                (if mu ws1 = WriteLocked then (Deadlock, ws1, [])
                 else if shouldReconnect ws1 \<and> AutoReconnect (options ws1)
                 then scheduleReconnect ws1
                 else (Returns (), ws1, [])))"

text \<open>
  The function given to \<^verbatim>\<open>time.AfterFunc\<close> runs when a pending timer fires: it calls
  \<open>Connect\<close> and drops (logs) its error. A stopped, expired or absent timer does nothing.
\<close>

definition reconnectTimer_fires :: "env \<Rightarrow> WebSocketClient \<Rightarrow> unit res" where
  "reconnectTimer_fires en ws =
     (case reconnectTimer ws of
        Some (Pending attempt) \<Rightarrow>
          (case Connect en (ws\<lparr>reconnectTimer := Some Expired\<rparr>) of
             (out, ws', tr) \<Rightarrow> (map_outcome (\<lambda>r. ()) out, ws', tr))
      | Some Expired \<Rightarrow> (Returns (), ws, [])
      | None \<Rightarrow> (Returns (), ws, []))"

section \<open>The read-loop\<close>

definition dispatch :: "WebSocketClient \<Rightarrow> MarketChannelMessage \<Rightarrow> event list" where
  "dispatch ws msg =
     (case GetEventType msg of
        EventTypeBook \<Rightarrow>
          (case AsBookMessage msg of
             Some bookMsg \<Rightarrow> if OnBook (callbacks ws) then [Invoke_OnBook bookMsg] else []
           | None \<Rightarrow> [])
      | EventTypePriceChange \<Rightarrow>
          (case AsPriceChangeMessage msg of
             Some pcMsg \<Rightarrow> if OnPriceChange (callbacks ws) then [Invoke_OnPriceChange pcMsg] else []
           | None \<Rightarrow> [])
      | EventTypeTickSizeChange \<Rightarrow>
          (case AsTickSizeChangeMessage msg of
             Some tsMsg \<Rightarrow> if OnTickSizeChange (callbacks ws) then [Invoke_OnTickSizeChange tsMsg] else []
           | None \<Rightarrow> [])
      | EventTypeLastTradePrice \<Rightarrow>
          (case AsLastTradePriceMessage msg of
             Some ltMsg \<Rightarrow> if OnLastTradePrice (callbacks ws) then [Invoke_OnLastTradePrice ltMsg] else []
           | None \<Rightarrow> []))
     @ (if OnMessage (callbacks ws) then [Invoke_OnMessage msg] else [])"

definition parseAndDispatch :: "codec \<Rightarrow> WebSocketClient \<Rightarrow> bytes \<Rightarrow> event list" where
  "parseAndDispatch cd ws data =
     (case ParseMarketChannelMessage cd data of
        Inl err \<Rightarrow> handleError (Errorf ''failed to parse message'' err) ws
      | Inr msg \<Rightarrow> dispatch ws msg)"

fun processMessage_loop :: "codec \<Rightarrow> WebSocketClient \<Rightarrow> bytes list \<Rightarrow> event list" where
  "processMessage_loop cd ws [] = []"
| "processMessage_loop cd ws (msgData # rest) =
     parseAndDispatch cd ws msgData @ processMessage_loop cd ws rest"

definition processMessage :: "codec \<Rightarrow> WebSocketClient \<Rightarrow> bytes \<Rightarrow> event list" where
  "processMessage cd ws data =
     (case Unmarshal_RawMessages cd data of
        Some messages \<Rightarrow> processMessage_loop cd ws messages
      | None \<Rightarrow> parseAndDispatch cd ws data)"

text \<open>
  What \<^verbatim>\<open>conn.ReadMessage\<close> returns, one value per call: a frame (message type and
  payload) or an error, which is a close error with its code or any other error.
  \<open>IsUnexpectedCloseError\<close> is the one of the websocket library: a close error whose code
  is not among the expected ones.
\<close>

datatype read_result = Frame int bytes | ReadFails error

definition TextMessage :: int where "TextMessage = 1"
definition CloseNormalClosure :: int where "CloseNormalClosure = 1000"
definition CloseGoingAway :: int where "CloseGoingAway = 1001"

fun IsUnexpectedCloseError :: "error \<Rightarrow> int list \<Rightarrow> bool" where
  "IsUnexpectedCloseError (CloseError code text) expectedCodes = (code \<notin> set expectedCodes)"
| "IsUnexpectedCloseError err expectedCodes = False"

text \<open>
  \<open>handleMessages\<close> on the results its reads will get. Each iteration takes the read lock
  and looks at the connection; the deferred \<open>handleDisconnect\<close> runs when the loop
  returns. The callbacks read by \<open>processMessage\<close> are those registered in the state.
\<close>

fun handleMessages :: "codec \<Rightarrow> read_result list \<Rightarrow> WebSocketClient \<Rightarrow> unit res" where
  "handleMessages cd [] ws =
     (if mu ws = WriteLocked then (Deadlock, ws, [])
      else if conn ws = None then handleDisconnect CloseNormalClosure ''Connection closed'' ws
      else (AwaitsInput, ws, []))"
| "handleMessages cd (ReadFails err # rest) ws =
     (if mu ws = WriteLocked then (Deadlock, ws, [])
      else if conn ws = None then handleDisconnect CloseNormalClosure ''Connection closed'' ws
      else emit (if IsUnexpectedCloseError err [CloseGoingAway, CloseNormalClosure]
                 then handleError (Errorf ''WebSocket error'' err) ws else [])
             (handleDisconnect CloseNormalClosure ''Connection closed'' ws))"
| "handleMessages cd (Frame messageType message # rest) ws =
     (if mu ws = WriteLocked then (Deadlock, ws, [])
      else if conn ws = None then handleDisconnect CloseNormalClosure ''Connection closed'' ws
      else if messageType = TextMessage
      then (if message = ''PONG'' then handleMessages cd rest ws
            else emit (processMessage cd ws message) (handleMessages cd rest ws))
      else handleMessages cd rest ws)"

section \<open>Runs of calls\<close>

text \<open>
  A run is a sequence of things that happen to one client, each executed to its end
  before the next one starts: calls by the owner, the reconnect timer firing, and the
  read-loop running over the results of its reads.
\<close>

datatype call =
    Do_Subscribe env "string list"
  | Do_Unsubscribe "string list"
  | Do_Disconnect
  | Timer_fires env
  | ReadLoop_runs "read_result list"

fun step :: "codec \<Rightarrow> call \<Rightarrow> WebSocketClient \<Rightarrow> unit res" where
  "step cd (Do_Subscribe en assetIDs) ws =
     (case Subscribe en assetIDs ws of (out, ws', tr) \<Rightarrow> (map_outcome (\<lambda>r. ()) out, ws', tr))"
| "step cd (Do_Unsubscribe assetIDs) ws = Unsubscribe assetIDs ws"
| "step cd Do_Disconnect ws = Disconnect ws"
| "step cd (Timer_fires en) ws = reconnectTimer_fires en ws"
| "step cd (ReadLoop_runs rs) ws = handleMessages cd rs ws"

fun run :: "codec \<Rightarrow> call list \<Rightarrow> WebSocketClient \<Rightarrow> WebSocketClient \<times> event list" where
  "run cd [] ws = (ws, [])"
| "run cd (c # cs) ws =
     (case step cd c ws of
        (out, ws', tr) \<Rightarrow> (case run cd cs ws' of (ws'', tr') \<Rightarrow> (ws'', tr @ tr')))"

section \<open>Sample values\<close>

definition sample_options :: WebSocketClientOptions where
  "sample_options = \<lparr>AssetIDs = [''A'', ''B''], Markets = [], AutoReconnect = True,
                      ReconnectDelay = 0, MaxReconnectAttempts = 3, Debug = False,
                      ProxyUrl = []\<rparr>"

definition all_callbacks :: WebSocketCallbacks where
  "all_callbacks = \<lparr>OnBook = True, OnPriceChange = True, OnTickSizeChange = True,
                     OnLastTradePrice = True, OnMessage = True, OnError = True,
                     OnConnect = True, OnDisconnect = True, OnReconnect = True\<rparr>"

definition sample_client :: WebSocketClient where
  "sample_client = On all_callbacks (NewWebSocketClient (Some sample_options))"

definition sample_creds :: ApiKeyCreds where
  "sample_creds = \<lparr>Key = ''k'', Secret = ''s'', Passphrase = ''p''\<rparr>"

text \<open>Collaborators that all succeed; the dialer hands out connection 1.\<close>

definition env_ok :: env where
  "env_ok = \<lparr>DeriveApiKey_result = Inr sample_creds,
             url_Parse_result = Inr ''http://127.0.0.1:9090'',
             Dial_result = Inr 1, WriteJSON_result = None\<rparr>"

text \<open>A client without a wallet: \<^verbatim>\<open>DeriveApiKey\<close> returns its first error.\<close>

definition env_no_wallet :: env where
  "env_no_wallet =
     env_ok\<lparr>DeriveApiKey_result := Inl (ErrorNew ''wallet is required to derive API key'')\<rparr>"

text \<open>
  A proxy URL without a scheme, on which \<^verbatim>\<open>url.Parse\<close> fails, and a client configured
  with it.
\<close>

definition env_bad_proxy :: env where
  "env_bad_proxy = env_ok\<lparr>url_Parse_result := Inl (ErrorNew ''missing protocol scheme'')\<rparr>"

definition proxy_client :: WebSocketClient where
  "proxy_client =
     On all_callbacks (NewWebSocketClient (Some (sample_options\<lparr>ProxyUrl := '':8080''\<rparr>)))"

text \<open>The sample client after its first, successful \<open>Connect\<close>.\<close>

definition connected_client :: WebSocketClient where
  "connected_client = (case Connect env_ok sample_client of (out, ws, tr) \<Rightarrow> ws)"

definition sample_trade :: bytes where
  \<open>sample_trade =
     ''{"event_type":"last_trade_price","market":"A","side":"BUY","price":"0.42","size":"10"}''\<close>

definition sample_book :: bytes where
  \<open>sample_book = ''{"event_type":"book","market":"A","asset_id":"A","bids":[],"asks":[]}''\<close>

text \<open>
  Modelled from the spec: the two decoders (not among the sources), as a table of
  their values at the payloads of the examples below: the two sample events, the arrays
  \<open>[{},{}]\<close>, \<open>[]\<close> and the one of the two sample events, \<open>null\<close>, \<open>{}\<close> and the text
  \<open>not json\<close>. A JSON array unmarshals into its elements and \<open>null\<close> into no element,
  without error; an object whose \<^verbatim>\<open>event_type\<close> names a known kind decodes to that variant,
  and a payload with an unknown or missing discriminator is a decode error. On any
  other payload the table answers as for a text that is no JSON; the examples do not
  use it there.
\<close>

definition sample_codec :: codec where
  "sample_codec =
     \<lparr>Unmarshal_RawMessages =
        (\<lambda>d. if d = ''[{},{}]'' then Some [''{}'', ''{}'']
             else if d = ''[]'' \<or> d = ''null'' then Some []
             else if d = ''['' @ sample_book @ '','' @ sample_trade @ '']''
             then Some [sample_book, sample_trade]
             else None),
      ParseMarketChannelMessage =
        (\<lambda>d. if d = sample_trade then Inr (LastTradePriceMessage d)
             else if d = sample_book then Inr (BookMessage d)
             else Inl (ErrorNew ''unknown event type''))\<rparr>"

section \<open>What the specification expects of a run of subscription calls\<close>

text \<open>
  These two functions follow the words of the specification, not the code: the
  subscription set after a sequence of calls is all identifiers added, in order, minus
  those removed; and one subscribe frame, carrying the set as it is then, goes out with
  every \<open>Subscribe\<close> and none with \<open>Unsubscribe\<close>. \<open>sent_frames\<close> reads the asset lists of
  the frames handed to \<^verbatim>\<open>conn.WriteJSON\<close> off a list of events.
\<close>

fun spec_subscription_set :: "string list \<Rightarrow> call list \<Rightarrow> string list" where
  "spec_subscription_set xs [] = xs"
| "spec_subscription_set xs (Do_Subscribe en ids # cs) = spec_subscription_set (xs @ ids) cs"
| "spec_subscription_set xs (Do_Unsubscribe ids # cs) =
     spec_subscription_set (filter (\<lambda>a. a \<notin> set ids) xs) cs"
| "spec_subscription_set xs (c # cs) = spec_subscription_set xs cs"

fun spec_frames :: "string list \<Rightarrow> call list \<Rightarrow> string list list" where
  "spec_frames xs [] = []"
| "spec_frames xs (Do_Subscribe en ids # cs) = (xs @ ids) # spec_frames (xs @ ids) cs"
| "spec_frames xs (Do_Unsubscribe ids # cs) = spec_frames (filter (\<lambda>a. a \<notin> set ids) xs) cs"
| "spec_frames xs (c # cs) = spec_frames xs cs"

fun sent_frames :: "event list \<Rightarrow> string list list" where
  "sent_frames [] = []"
| "sent_frames (Call_WriteJSON c m # tr) =
     (case map_of m ''assets_ids'' of
        Some (JStrings ids) \<Rightarrow> ids # sent_frames tr
      | Some (JString s) \<Rightarrow> sent_frames tr
      | None \<Rightarrow> sent_frames tr)"
| "sent_frames (e # tr) = sent_frames tr"

fun subscription_call :: "call \<Rightarrow> bool" where
  "subscription_call (Do_Subscribe en ids) = True"
| "subscription_call (Do_Unsubscribe ids) = True"
| "subscription_call c = False"

section \<open>Reconnect attempts in a run\<close>

text \<open>
  The events by which the reconnection controller shows itself are the on-reconnect
  callback and the arming of the timer. A redial made by the timer fails when \<open>Connect\<close>
  returns before it stores a new connection, which is where the attempt counter is
  reset: the credential derivation, the proxy URL or the dial fails. \<open>quiet\<close> and
  \<open>counted\<close> say of the result of one call that it left the counter and the
  configuration alone and showed no such event, or that the counter grew by the number
  of timers armed and stayed within the maximum.
\<close>

fun reconnect_event :: "event \<Rightarrow> bool" where
  "reconnect_event (Invoke_OnReconnect n) = True"
| "reconnect_event (Call_AfterFunc d n) = True"
| "reconnect_event e = False"

definition redial_fails :: "WebSocketClient \<Rightarrow> env \<Rightarrow> bool" where
  "redial_fails ws en \<longleftrightarrow>
     isl (DeriveApiKey_result en)
     \<or> (ProxyUrl (options ws) \<noteq> [] \<and> isl (url_Parse_result en))
     \<or> isl (Dial_result en)"

fun failed_redial :: "WebSocketClient \<Rightarrow> call \<Rightarrow> bool" where
  "failed_redial ws (Timer_fires en) = redial_fails ws en"
| "failed_redial ws c = True"

definition quiet :: "WebSocketClient \<Rightarrow> 'r res \<Rightarrow> bool" where
  "quiet ws r \<longleftrightarrow>
     (case r of (out, ws', tr) \<Rightarrow>
        reconnectAttempts ws' = reconnectAttempts ws
        \<and> MaxReconnectAttempts (options ws') = MaxReconnectAttempts (options ws)
        \<and> ProxyUrl (options ws') = ProxyUrl (options ws)
        \<and> (\<forall>e\<in>set tr. \<not> reconnect_event e))"

definition exhausted :: "WebSocketClient \<Rightarrow> bool" where
  "exhausted ws \<longleftrightarrow>
     0 < MaxReconnectAttempts (options ws)
     \<and> MaxReconnectAttempts (options ws) \<le> reconnectAttempts ws"

fun timer_event :: "event \<Rightarrow> bool" where
  "timer_event (Call_AfterFunc d n) = True"
| "timer_event e = False"

fun callback_event :: "event \<Rightarrow> bool" where
  "callback_event (Invoke_OnReconnect n) = True"
| "callback_event e = False"

definition within_limit :: "WebSocketClient \<Rightarrow> bool" where
  "within_limit ws \<longleftrightarrow>
     0 < MaxReconnectAttempts (options ws) \<and> MaxReconnectAttempts (options ws) < 2 ^ 63
     \<and> 0 \<le> reconnectAttempts ws
     \<and> reconnectAttempts ws \<le> MaxReconnectAttempts (options ws)"

definition counted :: "WebSocketClient \<Rightarrow> 'r res \<Rightarrow> bool" where
  "counted ws r \<longleftrightarrow>
     (case r of (out, ws', tr) \<Rightarrow>
        reconnectAttempts ws' = reconnectAttempts ws + int (length (filter timer_event tr))
        \<and> length (filter callback_event tr) \<le> length (filter timer_event tr)
        \<and> MaxReconnectAttempts (options ws') = MaxReconnectAttempts (options ws)
        \<and> ProxyUrl (options ws') = ProxyUrl (options ws)
        \<and> reconnectAttempts ws' \<le> MaxReconnectAttempts (options ws))"

text \<open>
  A dialer that refuses the connection, a client limited to one reconnect attempt, and
  that client after it connected and its read-loop then got a read error.
\<close>

definition env_dial_fails :: env where
  "env_dial_fails = env_ok\<lparr>Dial_result := Inl (ErrorNew ''connection refused'')\<rparr>"

definition one_attempt_client :: WebSocketClient where
  "one_attempt_client =
     On all_callbacks (NewWebSocketClient (Some (sample_options\<lparr>MaxReconnectAttempts := 1\<rparr>)))"

definition exhausted_client :: WebSocketClient where
  "exhausted_client =
     fst (run sample_codec [ReadLoop_runs [ReadFails (CloseError 1006 ''unexpected EOF'')]]
            (case Connect env_ok one_attempt_client of (out, ws, tr) \<Rightarrow> ws))"

section \<open>Facts about the sample values\<close>

lemma sample_client_eq:
  "sample_client =
     \<lparr>options = sample_options\<lparr>ReconnectDelay := 5000000000\<rparr>, callbacks = all_callbacks,
      conn = None, pingTicker = False, reconnectTimer = None, reconnectAttempts = 0,
      isConnecting = False, shouldReconnect = True, mu = Unlocked\<rparr>"
  by (simp add: sample_client_def On_def NewWebSocketClient_def sample_options_def)

lemma Connect_sample:
  "Connect env_ok sample_client =
     (Returns None,
      sample_client\<lparr>conn := Some 1, pingTicker := True\<rparr>,
      [Call_DeriveApiKey, Call_Dial (wsURL @ ''/ws/market'') None,
       Call_WriteJSON 1 (subscribe_message [''A'', ''B'']),
       Go_handleMessages, Go_pingLoop, Invoke_OnConnect])"
  by (simp add: Connect_def Connect_guard_def Connect_dial_def sendSubscription_def emit_def
        env_ok_def sample_client_eq sample_options_def all_callbacks_def)

lemma connected_client_eq:
  "connected_client = sample_client\<lparr>conn := Some 1, pingTicker := True\<rparr>"
  by (simp add: connected_client_def Connect_sample)

section \<open>Unsubscribe\<close>

lemma shouldKeep_iff: "shouldKeep a ids \<longleftrightarrow> a \<notin> set ids"
  by (induction ids) auto

lemma Unsubscribe_loop_filter:
  "Unsubscribe_loop xs ids acc = acc @ filter (\<lambda>a. a \<notin> set ids) xs"
  by (induction xs arbitrary: acc) (simp_all add: shouldKeep_iff)

lemma Unsubscribe_unlocked:
  assumes "mu ws = Unlocked"
  shows "Unsubscribe ids ws =
           (Returns (),
            ws\<lparr>options := (options ws)\<lparr>AssetIDs := filter (\<lambda>a. a \<notin> set ids) (AssetIDs (options ws))\<rparr>\<rparr>,
            [])"
  using assms by (simp add: Unsubscribe_def Unsubscribe_loop_filter)

text \<open>
  C10. \<open>Unsubscribe ids\<close> returns, sends nothing (no event), and replaces the
  subscription list by the list of its elements that are not in \<open>ids\<close>, in their
  order: every occurrence of an identifier of \<open>ids\<close> is gone, all others stay as they
  were. Applying it a second time with the same \<open>ids\<close> changes nothing. (The mutex is
  free: otherwise no call of the client returns.)
\<close>

theorem C10_Unsubscribe_removes_listed_ids:
  assumes "mu ws = Unlocked"
  shows "Unsubscribe ids ws =
           (Returns (),
            ws\<lparr>options := (options ws)\<lparr>AssetIDs := filter (\<lambda>a. a \<notin> set ids) (AssetIDs (options ws))\<rparr>\<rparr>,
            [])
         \<and> (case Unsubscribe ids ws of
              (out, ws', tr) \<Rightarrow> Unsubscribe ids ws' = (Returns (), ws', []))"
  using assms by (simp add: Unsubscribe_def Unsubscribe_loop_filter)

text \<open>C10, at a list with a repeated identifier and an identifier that is not subscribed.\<close>

theorem C10_Unsubscribe_witness:
  "mu sample_client = Unlocked
   \<and> (case Unsubscribe [''A'', ''C''] (sample_client\<lparr>options := sample_options\<lparr>AssetIDs := [''A'', ''B'', ''A'', ''D'']\<rparr>\<rparr>) of
        (out, ws', tr) \<Rightarrow> out = Returns () \<and> AssetIDs (options ws') = [''B'', ''D''] \<and> tr = [])"
  using C10_Unsubscribe_removes_listed_ids
          [of "sample_client\<lparr>options := sample_options\<lparr>AssetIDs := [''A'', ''B'', ''A'', ''D'']\<rparr>\<rparr>"
              "[''A'', ''C'']"]
  by (simp add: sample_client_eq sample_options_def)

section \<open>Subscribe\<close>

lemma Subscribe_connected:
  assumes "mu ws = Unlocked" and "conn ws = Some c"
  shows "Subscribe en assetIDs ws =
           (Returns (WriteJSON_result en),
            ws\<lparr>options := (options ws)\<lparr>AssetIDs := AssetIDs (options ws) @ assetIDs\<rparr>\<rparr>,
            [Call_WriteJSON c (subscribe_message (AssetIDs (options ws) @ assetIDs))])"
  using assms by (simp add: Subscribe_def IsConnected_def sendSubscription_def)

text \<open>
  C3, as the code has it. Called while connected, \<open>Subscribe\<close> appends the identifiers,
  hands the frame with the whole list to \<^verbatim>\<open>WriteJSON\<close>, and returns what \<^verbatim>\<open>WriteJSON\<close>
  returned: a failed send is the error \<open>Subscribe\<close> returns to its caller. The write is
  the only event, so the error callback is not invoked.
\<close>

theorem C3_Subscribe_returns_send_result:
  assumes "mu ws = Unlocked" and "conn ws = Some c"
  shows "Subscribe en assetIDs ws =
           (Returns (WriteJSON_result en),
            ws\<lparr>options := (options ws)\<lparr>AssetIDs := AssetIDs (options ws) @ assetIDs\<rparr>\<rparr>,
            [Call_WriteJSON c (subscribe_message (AssetIDs (options ws) @ assetIDs))])"
  using assms by (rule Subscribe_connected)

text \<open>
  C3 as the specification states it fails: on the connected sample client, whose error callback is
  registered, a \<open>Subscribe\<close> whose write fails returns that error and invokes nothing.
\<close>

theorem C3_send_error_is_returned_counterexample:
  "OnError (callbacks connected_client)
   \<and> Subscribe (env_ok\<lparr>WriteJSON_result := Some (ErrorNew ''broken pipe'')\<rparr>) [''C''] connected_client =
       (Returns (Some (ErrorNew ''broken pipe'')),
        connected_client\<lparr>options := (options connected_client)\<lparr>AssetIDs := [''A'', ''B'', ''C'']\<rparr>\<rparr>,
        [Call_WriteJSON 1 (subscribe_message [''A'', ''B'', ''C''])])"
  by (simp add: connected_client_eq sample_client_eq Subscribe_def IsConnected_def sendSubscription_def
        sample_options_def all_callbacks_def env_ok_def)

theorem C3_Subscribe_witness:
  "mu connected_client = Unlocked \<and> conn connected_client = Some 1
   \<and> Subscribe (env_ok\<lparr>WriteJSON_result := Some (ErrorNew ''broken pipe'')\<rparr>) [''C''] connected_client =
       (Returns (Some (ErrorNew ''broken pipe'')),
        connected_client\<lparr>options := (options connected_client)\<lparr>AssetIDs := [''A'', ''B'', ''C'']\<rparr>\<rparr>,
        [Call_WriteJSON 1 (subscribe_message [''A'', ''B'', ''C''])])"
  using C3_Subscribe_returns_send_result
          [of connected_client 1 "env_ok\<lparr>WriteJSON_result := Some (ErrorNew ''broken pipe'')\<rparr>" "[''C'']"]
  by (simp add: connected_client_eq sample_client_eq sample_options_def)

section \<open>Runs of Subscribe and Unsubscribe\<close>

lemma sent_frames_subscribe:
  "map_of (subscribe_message ids) ''assets_ids'' = Some (JStrings ids)"
  by (simp add: subscribe_message_def)

lemma run_subscriptions:
  assumes "mu ws = Unlocked" and "conn ws = Some c" and "\<forall>cl\<in>set calls. subscription_call cl"
  shows "AssetIDs (options (fst (run cd calls ws))) = spec_subscription_set (AssetIDs (options ws)) calls
         \<and> sent_frames (snd (run cd calls ws)) = spec_frames (AssetIDs (options ws)) calls"
  using assms
proof (induction calls arbitrary: ws)
  case Nil
  then show ?case by simp
next
  case (Cons cl calls)
  show ?case
  proof (cases cl)
    case (Do_Subscribe en ids)
    let ?ws1 = "ws\<lparr>options := (options ws)\<lparr>AssetIDs := AssetIDs (options ws) @ ids\<rparr>\<rparr>"
    have "mu ?ws1 = Unlocked" "conn ?ws1 = Some c" using Cons.prems by simp_all
    from Cons.IH [OF this] Cons.prems show ?thesis
      by (auto simp add: Do_Subscribe Subscribe_connected sent_frames_subscribe
            split: prod.splits)
  next
    case (Do_Unsubscribe ids)
    let ?ws1 = "ws\<lparr>options := (options ws)\<lparr>AssetIDs := filter (\<lambda>a. a \<notin> set ids) (AssetIDs (options ws))\<rparr>\<rparr>"
    have "mu ?ws1 = Unlocked" "conn ?ws1 = Some c" using Cons.prems by simp_all
    from Cons.IH [OF this] Cons.prems show ?thesis
      by (auto simp add: Do_Unsubscribe Unsubscribe_unlocked split: prod.splits)
  qed (use Cons.prems in simp_all)
qed

lemma spec_frames_last:
  "spec_frames xs (pre @ Do_Subscribe en ids # map Do_Unsubscribe unsubs) =
     spec_frames xs pre @ [spec_subscription_set xs (pre @ [Do_Subscribe en ids])]"
proof (induction xs pre rule: spec_frames.induct)
  case (1 xs)
  have "spec_frames ys (map Do_Unsubscribe unsubs) = []" for ys
    by (induction unsubs arbitrary: ys) simp_all
  then show ?case by simp
qed simp_all

text \<open>
  C2, as the code has it. In a run of \<open>Subscribe\<close> and \<open>Unsubscribe\<close> calls on a connected
  client, the subscription list ends as all identifiers added, in the order of the calls,
  minus those removed (a repeated addition is kept twice); every \<open>Subscribe\<close> sends one
  frame carrying the whole list as it is right after that call, and \<open>Unsubscribe\<close> sends
  none. So the most recent frame is the list as of the latest \<open>Subscribe\<close>: when only
  \<open>Unsubscribe\<close> calls follow it, the frame still has what they removed.
\<close>

theorem C2_frames_follow_each_Subscribe:
  assumes "mu ws = Unlocked" and "conn ws = Some c" and "\<forall>cl\<in>set calls. subscription_call cl"
  shows "AssetIDs (options (fst (run cd calls ws))) = spec_subscription_set (AssetIDs (options ws)) calls
         \<and> sent_frames (snd (run cd calls ws)) = spec_frames (AssetIDs (options ws)) calls
         \<and> (\<forall>pre en ids unsubs. calls = pre @ Do_Subscribe en ids # map Do_Unsubscribe unsubs \<longrightarrow>
               last (sent_frames (snd (run cd calls ws))) =
                 spec_subscription_set (AssetIDs (options ws)) (pre @ [Do_Subscribe en ids]))"
  using run_subscriptions [OF assms, of cd] by (auto simp add: spec_frames_last)

text \<open>
  C2 as the specification states it fails: after \<open>Subscribe [C]\<close> and \<open>Unsubscribe [A]\<close> on the connected
  sample client the last frame sent is \<open>[A, B, C]\<close> while the subscription list is
  \<open>[B, C]\<close>; and after \<open>Subscribe [A]\<close> the frame has \<open>A\<close> twice.
\<close>

theorem C2_last_frame_differs_counterexample:
  "last (sent_frames (snd (run sample_codec [Do_Subscribe env_ok [''C''], Do_Unsubscribe [''A'']] connected_client)))
     = [''A'', ''B'', ''C'']
   \<and> AssetIDs (options (fst (run sample_codec [Do_Subscribe env_ok [''C''], Do_Unsubscribe [''A'']] connected_client)))
     = [''B'', ''C'']
   \<and> last (sent_frames (snd (run sample_codec [Do_Subscribe env_ok [''A'']] connected_client)))
     = [''A'', ''B'', ''A'']"
  by (simp add: connected_client_eq sample_client_eq sample_options_def Subscribe_def IsConnected_def
        sendSubscription_def Unsubscribe_def subscribe_message_def)

theorem C2_frames_witness:
  "mu connected_client = Unlocked \<and> conn connected_client = Some 1
   \<and> subscription_call (Do_Subscribe env_ok [''C'']) \<and> subscription_call (Do_Unsubscribe [''A''])
   \<and> AssetIDs (options (fst (run sample_codec [Do_Subscribe env_ok [''C''], Do_Unsubscribe [''A'']] connected_client)))
       = [''B'', ''C'']
   \<and> sent_frames (snd (run sample_codec [Do_Subscribe env_ok [''C''], Do_Unsubscribe [''A'']] connected_client))
       = [[''A'', ''B'', ''C'']]"
  using C2_frames_follow_each_Subscribe
          [of connected_client 1 "[Do_Subscribe env_ok [''C''], Do_Unsubscribe [''A'']]" sample_codec]
  by (simp add: connected_client_eq sample_client_eq sample_options_def)

section \<open>Connect\<close>

text \<open>
  C4, as the code has it. A \<open>Connect\<close> that gets past its guard asks the credential
  provider first: when the derivation fails, \<open>Connect\<close> returns that error, wrapped, and
  neither dials nor sends. Beyond the debug log line that prints the key, the credentials
  are not used: another triple gives the same result, state and events, and every frame
  \<open>Connect\<close> writes is the market subscribe message, the asset list and the type, with
  no credential in it.
\<close>

theorem C4_Connect_derives_credentials_first:
  assumes "mu ws = Unlocked" and "\<not> isConnecting ws" and "conn ws = None"
  shows "(\<forall>err. DeriveApiKey_result en = Inl err \<longrightarrow>
            Connect en ws =
              (Returns (Some (Errorf ''failed to derive API key'' err)),
               ws\<lparr>isConnecting := False, shouldReconnect := True\<rparr>, [Call_DeriveApiKey]))
         \<and> (\<forall>k k'. DeriveApiKey_result en = Inr k \<longrightarrow>
               Connect (en\<lparr>DeriveApiKey_result := Inr k'\<rparr>) ws = Connect en ws)
         \<and> (\<forall>c m. Call_WriteJSON c m \<in> set (snd (snd (Connect en ws))) \<longrightarrow>
               m = subscribe_message (AssetIDs (options ws)))"
proof -
  have g: "Connect en' ws = Connect_dial en' (ws\<lparr>isConnecting := True, shouldReconnect := True\<rparr>)" for en'
    using assms by (simp add: Connect_def Connect_guard_def)
  have a: "\<forall>err. DeriveApiKey_result en = Inl err \<longrightarrow>
            Connect en ws =
              (Returns (Some (Errorf ''failed to derive API key'' err)),
               ws\<lparr>isConnecting := False, shouldReconnect := True\<rparr>, [Call_DeriveApiKey])"
    by (simp add: g Connect_dial_def)
  have b: "\<forall>k k'. DeriveApiKey_result en = Inr k \<longrightarrow>
               Connect (en\<lparr>DeriveApiKey_result := Inr k'\<rparr>) ws = Connect en ws"
    by (auto simp add: g Connect_dial_def sendSubscription_def split: sum.splits)
  have c: "\<forall>c m. Call_WriteJSON c m \<in> set (snd (snd (Connect en ws))) \<longrightarrow>
               m = subscribe_message (AssetIDs (options ws))"
    using assms(1)
    by (auto simp add: g Connect_dial_def sendSubscription_def emit_def
          split: sum.splits if_splits option.splits)
  show ?thesis using a b c by blast
qed

text \<open>
  C4 as the specification states it fails: with a credential provider that fails (a client without a
  wallet) \<open>Connect\<close> on the market channel returns the derivation error and does not
  dial, where it connects when the derivation succeeds.
\<close>

theorem C4_Connect_fails_without_credentials_counterexample:
  "Connect env_no_wallet sample_client =
     (Returns (Some (Errorf ''failed to derive API key''
                       (ErrorNew ''wallet is required to derive API key''))),
      sample_client, [Call_DeriveApiKey])
   \<and> fst (Connect env_ok sample_client) = Returns None"
  by (simp add: sample_client_eq Connect_def Connect_guard_def Connect_dial_def sendSubscription_def
        emit_def env_no_wallet_def env_ok_def sample_options_def all_callbacks_def)

theorem C4_Connect_witness:
  "mu sample_client = Unlocked \<and> \<not> isConnecting sample_client \<and> conn sample_client = None
   \<and> DeriveApiKey_result env_no_wallet = Inl (ErrorNew ''wallet is required to derive API key'')
   \<and> Connect env_no_wallet sample_client =
       (Returns (Some (Errorf ''failed to derive API key''
                         (ErrorNew ''wallet is required to derive API key''))),
        sample_client, [Call_DeriveApiKey])
   \<and> Call_WriteJSON 1 (subscribe_message [''A'', ''B'']) \<in> set (snd (snd (Connect env_ok sample_client)))
   \<and> subscribe_message [''A'', ''B''] = subscribe_message (AssetIDs (options sample_client))"
proof -
  have h: "mu sample_client = Unlocked" "\<not> isConnecting sample_client" "conn sample_client = None"
    by (simp_all add: sample_client_eq)
  have d: "DeriveApiKey_result env_no_wallet = Inl (ErrorNew ''wallet is required to derive API key'')"
    by (simp add: env_no_wallet_def)
  have w: "Call_WriteJSON 1 (subscribe_message [''A'', ''B'']) \<in> set (snd (snd (Connect env_ok sample_client)))"
    by (simp add: Connect_sample)
  have same: "sample_client\<lparr>isConnecting := False, shouldReconnect := True\<rparr> = sample_client"
    by (simp add: sample_client_eq)
  from C4_Connect_derives_credentials_first [OF h, of env_no_wallet] d same
  have 1: "Connect env_no_wallet sample_client =
       (Returns (Some (Errorf ''failed to derive API key''
                         (ErrorNew ''wallet is required to derive API key''))),
        sample_client, [Call_DeriveApiKey])"
    by simp
  from C4_Connect_derives_credentials_first [OF h, of env_ok] w
  have 2: "subscribe_message [''A'', ''B''] = subscribe_message (AssetIDs (options sample_client))"
    by blast
  show ?thesis using h d w 1 2 by simp
qed

text \<open>
  C5, the code at a proxy URL that does not parse. \<open>Connect\<close> returns the parse error
  and leaves \<open>isConnecting\<close> set (the two other error returns reset it). The next
  \<open>Connect\<close>, whatever the collaborators would answer, returns success at once and
  calls none of them.
\<close>

theorem C5_proxy_error_leaves_isConnecting_set:
  "Connect env_bad_proxy proxy_client =
     (Returns (Some (Errorf ''failed to parse proxy url'' (ErrorNew ''missing protocol scheme''))),
      proxy_client\<lparr>isConnecting := True\<rparr>, [Call_DeriveApiKey])
   \<and> Connect env_bad_proxy (proxy_client\<lparr>isConnecting := True\<rparr>) =
       (Returns None, proxy_client\<lparr>isConnecting := True\<rparr>, [])
   \<and> Connect env_ok (proxy_client\<lparr>isConnecting := True\<rparr>) =
       (Returns None, proxy_client\<lparr>isConnecting := True\<rparr>, [])"
  by (simp add: proxy_client_def On_def NewWebSocketClient_def Connect_def Connect_guard_def
        Connect_dial_def env_bad_proxy_def env_ok_def sample_options_def all_callbacks_def)

section \<open>Reconnection\<close>

text \<open>
  C1, the code after a transport drop. The read-loop of the connected sample client
  (auto-reconnect on, at most 3 attempts) gets a read error: the disconnect is handled
  and attempt 1 is scheduled; the owner then removes \<open>A\<close>; the timer fires. Nothing
  cleared \<open>conn\<close>, so the \<open>Connect\<close> of the timer reaches \<open>IsConnected\<close> with the lock held
  and blocks there: the run has no dial and no subscribe frame, and the mutex stays
  locked.
\<close>

theorem C1_reconnect_timer_does_not_redial:
  "run sample_codec
     [ReadLoop_runs [ReadFails (CloseError 1006 ''unexpected EOF'')],
      Do_Unsubscribe [''A''],
      Timer_fires env_ok]
     connected_client =
     (connected_client
        \<lparr>options := (options connected_client)\<lparr>AssetIDs := [''B'']\<rparr>,
         pingTicker := False, reconnectTimer := Some Expired, reconnectAttempts := 1,
         mu := WriteLocked\<rparr>,
      [Invoke_OnError (Errorf ''WebSocket error'' (CloseError 1006 ''unexpected EOF'')),
       Invoke_OnDisconnect 1000 ''Connection closed'',
       Invoke_OnReconnect 1,
       Call_AfterFunc 5000000000 1])"
  by (simp add: connected_client_eq sample_client_eq sample_options_def all_callbacks_def
        handleDisconnect_def cleanup_def and_then_def emit_def scheduleReconnect_def handleError_def
        int64_wrap_def CloseGoingAway_def CloseNormalClosure_def Unsubscribe_def
        reconnectTimer_fires_def Connect_def Connect_guard_def IsConnected_def env_ok_def)

section \<open>The read-loop\<close>

lemma processMessage_loop_concat:
  "processMessage_loop cd ws msgs = concat (map (parseAndDispatch cd ws) msgs)"
  by (induction msgs) simp_all

text \<open>
  C9. A text frame \<open>PONG\<close> leaves no trace: the read-loop behaves on the frames that
  follow it as if it had not arrived. Alone on a connected client it produces no event,
  changes nothing, and the loop goes on reading.
\<close>

theorem C9_PONG_is_discarded:
  "handleMessages cd (Frame TextMessage ''PONG'' # rest) ws = handleMessages cd rest ws
   \<and> (mu ws = Unlocked \<and> conn ws \<noteq> None \<longrightarrow>
        handleMessages cd [Frame TextMessage ''PONG''] ws = (AwaitsInput, ws, []))"
proof -
  have "handleMessages cd (Frame TextMessage ''PONG'' # rest) ws = handleMessages cd rest ws"
    by (cases "(cd, rest, ws)" rule: handleMessages.cases) auto
  then show ?thesis by simp
qed

theorem C9_PONG_witness:
  "mu connected_client = Unlocked \<and> conn connected_client \<noteq> None
   \<and> handleMessages sample_codec [Frame TextMessage ''PONG'', Frame TextMessage sample_trade] connected_client
       = handleMessages sample_codec [Frame TextMessage sample_trade] connected_client
   \<and> handleMessages sample_codec [Frame TextMessage ''PONG''] connected_client =
       (AwaitsInput, connected_client, [])"
  using C9_PONG_is_discarded [of sample_codec "[Frame TextMessage sample_trade]" connected_client]
        C9_PONG_is_discarded [of sample_codec "[]" connected_client]
  by (simp add: connected_client_eq sample_client_eq)

text \<open>
  C8. A text frame that parses as an array of raw sub-messages produces the events of
  \<open>parseAndDispatch\<close> on each element, one element after the other in array order, and
  the loop continues. For an array of two elements that both decode, these are the
  callbacks for the first message followed by those for the second.
\<close>

theorem C8_array_frame_dispatches_in_order:
  assumes "mu ws = Unlocked" and "conn ws \<noteq> None" and "message \<noteq> ''PONG''"
    and "Unmarshal_RawMessages cd message = Some msgs"
  shows "handleMessages cd (Frame TextMessage message # rest) ws =
           emit (concat (map (parseAndDispatch cd ws) msgs)) (handleMessages cd rest ws)
         \<and> (\<forall>d1 d2 m1 m2. msgs = [d1, d2] \<and> ParseMarketChannelMessage cd d1 = Inr m1
                \<and> ParseMarketChannelMessage cd d2 = Inr m2 \<longrightarrow>
              handleMessages cd (Frame TextMessage message # rest) ws =
                emit (dispatch ws m1 @ dispatch ws m2) (handleMessages cd rest ws))"
  using assms by (auto simp add: processMessage_def processMessage_loop_concat parseAndDispatch_def)

theorem C8_array_frame_witness:
  "mu connected_client = Unlocked \<and> conn connected_client \<noteq> None
   \<and> handleMessages sample_codec
        [Frame TextMessage (''['' @ sample_book @ '','' @ sample_trade @ '']'')] connected_client =
       (AwaitsInput, connected_client,
        [Invoke_OnBook sample_book, Invoke_OnMessage (BookMessage sample_book),
         Invoke_OnLastTradePrice sample_trade,
         Invoke_OnMessage (LastTradePriceMessage sample_trade)])"
  using C8_array_frame_dispatches_in_order
          [of connected_client "''['' @ sample_book @ '','' @ sample_trade @ '']''" sample_codec
              "[sample_book, sample_trade]" "[]"]
  by (simp add: connected_client_eq sample_client_eq sample_codec_def sample_trade_def sample_book_def
        processMessage_def parseAndDispatch_def dispatch_def emit_def all_callbacks_def TextMessage_def)




section \<open>The attempt limit\<close>

lemma quiet_emit:
  "\<forall>e\<in>set tr. \<not> reconnect_event e \<Longrightarrow> quiet ws r \<Longrightarrow> quiet ws (emit tr r)"
  by (auto simp add: quiet_def emit_def split: prod.splits)

lemma quiet_cleanup: "quiet ws (cleanup ws)"
  by (simp add: quiet_def cleanup_def)

lemma quiet_scheduleReconnect: "exhausted ws \<Longrightarrow> quiet ws (scheduleReconnect ws)"
  by (simp add: quiet_def exhausted_def scheduleReconnect_def)

lemma quiet_handleDisconnect: "exhausted ws \<Longrightarrow> quiet ws (handleDisconnect code reason ws)"
  by (auto simp add: quiet_def exhausted_def handleDisconnect_def cleanup_def and_then_def emit_def
        scheduleReconnect_def)

lemma handleError_quiet: "\<forall>e\<in>set (handleError err ws). \<not> reconnect_event e"
  by (simp add: handleError_def)

lemma dispatch_quiet: "\<forall>e\<in>set (dispatch ws msg). \<not> reconnect_event e"
  by (cases msg) (auto simp add: dispatch_def)

lemma parseAndDispatch_quiet: "\<forall>e\<in>set (parseAndDispatch cd ws d). \<not> reconnect_event e"
  using handleError_quiet dispatch_quiet
  by (simp add: parseAndDispatch_def split: sum.splits)

lemma processMessage_quiet: "\<forall>e\<in>set (processMessage cd ws d). \<not> reconnect_event e"
  using parseAndDispatch_quiet
  by (auto simp add: processMessage_def processMessage_loop_concat split: option.splits)

lemma quiet_Deadlock: "quiet ws (Deadlock, ws, [])"
  by (simp add: quiet_def)

lemma quiet_handleMessages: "exhausted ws \<Longrightarrow> quiet ws (handleMessages cd rs ws)"
proof (induction cd rs ws rule: handleMessages.induct)
  case (1 cd ws)
  then show ?case
    by (simp add: quiet_Deadlock quiet_handleDisconnect) (simp add: quiet_def)
next
  case (2 cd err rest ws)
  then show ?case
    by (auto simp add: quiet_Deadlock quiet_handleDisconnect
          intro!: quiet_emit handleError_quiet)
next
  case (3 cd messageType message rest ws)
  then show ?case
    by (auto simp add: quiet_Deadlock quiet_handleDisconnect
          intro!: quiet_emit processMessage_quiet)
qed

lemma quiet_Connect: "redial_fails ws en \<Longrightarrow> quiet ws (Connect en ws)"
  by (auto simp add: quiet_def redial_fails_def Connect_def Connect_guard_def IsConnected_def
        Connect_dial_def isl_def split: sum.splits option.splits)

lemma quiet_reconnectTimer_fires: "redial_fails ws en \<Longrightarrow> quiet ws (reconnectTimer_fires en ws)"
proof -
  assume f: "redial_fails ws en"
  have "redial_fails (ws\<lparr>reconnectTimer := Some Expired\<rparr>) en"
    using f by (simp add: redial_fails_def)
  from quiet_Connect [OF this] show ?thesis
    by (auto simp add: quiet_def reconnectTimer_fires_def split: option.splits timer.splits prod.splits)
qed

lemma quiet_Subscribe: "quiet ws (Subscribe en ids ws)"
  by (auto simp add: quiet_def Subscribe_def IsConnected_def sendSubscription_def Let_def
        split: option.splits bool.splits)

lemma quiet_Unsubscribe: "quiet ws (Unsubscribe ids ws)"
  by (simp add: quiet_def Unsubscribe_def)

lemma quiet_Disconnect: "quiet ws (Disconnect ws)"
  by (auto simp add: quiet_def Disconnect_def cleanup_def and_then_def split: option.splits)

lemma quiet_step: "exhausted ws \<Longrightarrow> failed_redial ws cl \<Longrightarrow> quiet ws (step cd cl ws)"
proof (cases cl)
  case (Do_Subscribe en ids)
  show ?thesis using quiet_Subscribe [of ws en ids]
    by (auto simp add: Do_Subscribe quiet_def split: prod.splits)
qed (simp_all add: quiet_Unsubscribe quiet_Disconnect quiet_reconnectTimer_fires quiet_handleMessages)

lemma run_exhausted:
  assumes "exhausted ws" and "\<forall>cl\<in>set calls. failed_redial ws cl"
  shows "reconnectAttempts (fst (run cd calls ws)) = reconnectAttempts ws
         \<and> (\<forall>e\<in>set (snd (run cd calls ws)). \<not> reconnect_event e)"
  using assms
proof (induction calls arbitrary: ws)
  case Nil
  then show ?case by simp
next
  case (Cons cl calls)
  obtain out ws1 tr where s: "step cd cl ws = (out, ws1, tr)"
    by (cases "step cd cl ws") auto
  have q: "quiet ws (step cd cl ws)"
    using Cons.prems by (simp add: quiet_step)
  have e1: "exhausted ws1"
    using q s Cons.prems(1) by (simp add: quiet_def exhausted_def)
  have f1: "\<forall>c\<in>set calls. failed_redial ws1 c"
  proof
    fix c assume "c \<in> set calls"
    then have "failed_redial ws c" using Cons.prems(2) by simp
    then show "failed_redial ws1 c"
      using q s by (cases c) (simp_all add: quiet_def redial_fails_def)
  qed
  from Cons.IH [OF e1 f1] q s show ?case
    by (auto simp add: quiet_def split: prod.splits)
qed


lemma not_reconnect_event: "\<not> reconnect_event e \<longleftrightarrow> \<not> timer_event e \<and> \<not> callback_event e"
  by (cases e) simp_all

lemma quiet_filters:
  "\<forall>e\<in>set tr. \<not> reconnect_event e \<Longrightarrow> filter timer_event tr = [] \<and> filter callback_event tr = []"
  by (induction tr) (simp_all add: not_reconnect_event)

lemma quiet_counted: "within_limit ws \<Longrightarrow> quiet ws r \<Longrightarrow> counted ws r"
  by (auto simp add: quiet_def counted_def within_limit_def quiet_filters split: prod.splits)

lemma counted_emit:
  "\<forall>e\<in>set tr. \<not> reconnect_event e \<Longrightarrow> counted ws r \<Longrightarrow> counted ws (emit tr r)"
  by (auto simp add: counted_def emit_def quiet_filters split: prod.splits)

lemma int64_wrap_id: "- (2 ^ 63) \<le> x \<Longrightarrow> x < 2 ^ 63 \<Longrightarrow> int64_wrap x = x"
  by (simp add: int64_wrap_def)

lemma counted_scheduleReconnect: "within_limit ws \<Longrightarrow> counted ws (scheduleReconnect ws)"
  by (auto simp add: counted_def within_limit_def scheduleReconnect_def Let_def int64_wrap_id)

lemma counted_handleDisconnect: "within_limit ws \<Longrightarrow> counted ws (handleDisconnect code reason ws)"
proof -
  assume w: "within_limit ws"
  show ?thesis
  proof (cases "mu ws = WriteLocked")
    case True
    then show ?thesis using w
      by (simp add: handleDisconnect_def cleanup_def and_then_def counted_def within_limit_def)
  next
    case False
    let ?ws1 = "ws\<lparr>pingTicker := False, reconnectTimer := None\<rparr>"
    have w1: "within_limit ?ws1" using w by (simp add: within_limit_def)
    have c1: "counted ?ws1 (scheduleReconnect ?ws1)" using w1 by (rule counted_scheduleReconnect)
    have c0: "counted ?ws1 (Returns (), ?ws1, [])" using w1 by (simp add: counted_def within_limit_def)
    show ?thesis using False c1 c0
      by (auto simp add: handleDisconnect_def cleanup_def and_then_def emit_def counted_def
            split: prod.splits)
  qed
qed

lemma counted_Deadlock: "within_limit ws \<Longrightarrow> counted ws (out, ws, [])"
  by (simp add: counted_def within_limit_def)

lemma counted_handleMessages: "within_limit ws \<Longrightarrow> counted ws (handleMessages cd rs ws)"
proof (induction cd rs ws rule: handleMessages.induct)
  case (1 cd ws)
  then show ?case
    by (simp add: counted_Deadlock counted_handleDisconnect)
next
  case (2 cd err rest ws)
  then show ?case
    by (auto simp add: counted_Deadlock counted_handleDisconnect
          intro!: counted_emit handleError_quiet)
next
  case (3 cd messageType message rest ws)
  then show ?case
    by (auto simp add: counted_Deadlock counted_handleDisconnect
          intro!: counted_emit processMessage_quiet)
qed

lemma counted_step: "within_limit ws \<Longrightarrow> failed_redial ws cl \<Longrightarrow> counted ws (step cd cl ws)"
proof (cases cl)
  case (Do_Subscribe en ids)
  assume "within_limit ws"
  then show ?thesis using quiet_counted [OF _ quiet_Subscribe [of ws en ids]]
    by (auto simp add: Do_Subscribe counted_def split: prod.splits)
qed (simp_all add: quiet_counted quiet_Unsubscribe quiet_Disconnect quiet_reconnectTimer_fires
       counted_handleMessages)

lemma run_counted:
  assumes "within_limit ws" and "\<forall>cl\<in>set calls. failed_redial ws cl"
  shows "reconnectAttempts (fst (run cd calls ws)) =
           reconnectAttempts ws + int (length (filter timer_event (snd (run cd calls ws))))
         \<and> length (filter callback_event (snd (run cd calls ws)))
             \<le> length (filter timer_event (snd (run cd calls ws)))
         \<and> reconnectAttempts (fst (run cd calls ws)) \<le> MaxReconnectAttempts (options ws)"
  using assms
proof (induction calls arbitrary: ws)
  case Nil
  then show ?case by (simp add: within_limit_def)
next
  case (Cons cl calls)
  obtain out ws1 tr where s: "step cd cl ws = (out, ws1, tr)"
    by (cases "step cd cl ws") auto
  have q: "counted ws (step cd cl ws)"
    using Cons.prems by (simp add: counted_step)
  have e1: "within_limit ws1"
    using q s Cons.prems(1) by (simp add: counted_def within_limit_def)
  have f1: "\<forall>c\<in>set calls. failed_redial ws1 c"
  proof
    fix c assume "c \<in> set calls"
    then have "failed_redial ws c" using Cons.prems(2) by simp
    then show "failed_redial ws1 c"
      using q s by (cases c) (simp_all add: counted_def redial_fails_def)
  qed
  from Cons.IH [OF e1 f1] q s show ?case
    by (auto simp add: counted_def split: prod.splits)
qed

text \<open>
  C6. Let the maximum \<open>N\<close> of reconnect attempts be positive, and take any run of
  read-loops ending, the reconnect timer firing with a redial that fails, and
  \<open>Subscribe\<close>, \<open>Unsubscribe\<close> and \<open>Disconnect\<close> calls (no \<open>Connect\<close> by the owner). If the
  attempt counter has reached \<open>N\<close>, the run arms no timer and invokes no on-reconnect
  callback, and the counter stays as it is. And from a counter between \<open>0\<close> and \<open>N\<close>
  (with \<open>N\<close> a 64-bit value) the counter grows by exactly the number of timers armed,
  never invokes the callback more often than that, and never passes \<open>N\<close>: no more than
  \<open>N\<close> attempts are scheduled in a row.
\<close>

theorem C6_no_redial_after_max_attempts:
  assumes "0 < MaxReconnectAttempts (options ws)"
    and "\<forall>cl\<in>set calls. failed_redial ws cl"
  shows "(MaxReconnectAttempts (options ws) \<le> reconnectAttempts ws \<longrightarrow>
            (\<forall>e\<in>set (snd (run cd calls ws)). \<not> reconnect_event e)
            \<and> reconnectAttempts (fst (run cd calls ws)) = reconnectAttempts ws)
         \<and> (0 \<le> reconnectAttempts ws \<and> reconnectAttempts ws \<le> MaxReconnectAttempts (options ws)
              \<and> MaxReconnectAttempts (options ws) < 2 ^ 63 \<longrightarrow>
            reconnectAttempts (fst (run cd calls ws)) =
              reconnectAttempts ws + int (length (filter timer_event (snd (run cd calls ws))))
            \<and> length (filter callback_event (snd (run cd calls ws)))
                \<le> length (filter timer_event (snd (run cd calls ws)))
            \<and> reconnectAttempts (fst (run cd calls ws)) \<le> MaxReconnectAttempts (options ws))"
proof -
  have a: "(\<forall>e\<in>set (snd (run cd calls ws)). \<not> reconnect_event e)
           \<and> reconnectAttempts (fst (run cd calls ws)) = reconnectAttempts ws"
    if "MaxReconnectAttempts (options ws) \<le> reconnectAttempts ws"
  proof -
    have "exhausted ws" using that assms(1) by (simp add: exhausted_def)
    from run_exhausted [OF this assms(2), of cd] show ?thesis by simp
  qed
  have b: "reconnectAttempts (fst (run cd calls ws)) =
             reconnectAttempts ws + int (length (filter timer_event (snd (run cd calls ws))))
           \<and> length (filter callback_event (snd (run cd calls ws)))
               \<le> length (filter timer_event (snd (run cd calls ws)))
           \<and> reconnectAttempts (fst (run cd calls ws)) \<le> MaxReconnectAttempts (options ws)"
    if "0 \<le> reconnectAttempts ws \<and> reconnectAttempts ws \<le> MaxReconnectAttempts (options ws)
          \<and> MaxReconnectAttempts (options ws) < 2 ^ 63"
  proof -
    have "within_limit ws" using that assms(1) by (simp add: within_limit_def)
    from run_counted [OF this assms(2), of cd] show ?thesis by simp
  qed
  show ?thesis using a b by blast
qed

lemma exhausted_client_eq:
  "exhausted_client =
     \<lparr>options = sample_options\<lparr>ReconnectDelay := 5000000000, MaxReconnectAttempts := 1\<rparr>,
      callbacks = all_callbacks, conn = Some 1, pingTicker = False,
      reconnectTimer = Some (Pending 1), reconnectAttempts = 1,
      isConnecting = False, shouldReconnect = True, mu = Unlocked\<rparr>"
  by (simp add: exhausted_client_def one_attempt_client_def On_def NewWebSocketClient_def
        sample_options_def all_callbacks_def env_ok_def
        Connect_def Connect_guard_def Connect_dial_def sendSubscription_def
        handleDisconnect_def cleanup_def and_then_def emit_def scheduleReconnect_def handleError_def
        int64_wrap_def CloseGoingAway_def CloseNormalClosure_def)

text \<open>
  C6 at two runs. On the client limited to one attempt, after its one attempt was
  scheduled, a further read-loop exit and the timer schedule nothing. On the sample
  client (three attempts) four read-loop exits in a row schedule attempts 1, 2 and 3, and
  the fourth schedules none.
\<close>

theorem C6_no_redial_witness:
  "0 < MaxReconnectAttempts (options exhausted_client)
   \<and> MaxReconnectAttempts (options exhausted_client) \<le> reconnectAttempts exhausted_client
   \<and> failed_redial exhausted_client (ReadLoop_runs [ReadFails (CloseError 1006 ''unexpected EOF'')])
   \<and> failed_redial exhausted_client (Timer_fires env_dial_fails)
   \<and> snd (run sample_codec
             [ReadLoop_runs [ReadFails (CloseError 1006 ''unexpected EOF'')], Timer_fires env_dial_fails]
             exhausted_client) =
       [Invoke_OnError (Errorf ''WebSocket error'' (CloseError 1006 ''unexpected EOF'')),
        Invoke_OnDisconnect 1000 ''Connection closed'']
   \<and> reconnectAttempts (fst (run sample_codec
             [ReadLoop_runs [ReadFails (CloseError 1006 ''unexpected EOF'')], Timer_fires env_dial_fails]
             exhausted_client)) = 1
   \<and> 0 < MaxReconnectAttempts (options connected_client)
   \<and> 0 \<le> reconnectAttempts connected_client
   \<and> reconnectAttempts connected_client \<le> MaxReconnectAttempts (options connected_client)
   \<and> MaxReconnectAttempts (options connected_client) < 2 ^ 63
   \<and> failed_redial connected_client (ReadLoop_runs [ReadFails (ErrorNew ''EOF'')])
   \<and> snd (run sample_codec
             [ReadLoop_runs [ReadFails (ErrorNew ''EOF'')], ReadLoop_runs [ReadFails (ErrorNew ''EOF'')],
              ReadLoop_runs [ReadFails (ErrorNew ''EOF'')], ReadLoop_runs [ReadFails (ErrorNew ''EOF'')]]
             connected_client) =
       [Invoke_OnDisconnect 1000 ''Connection closed'', Invoke_OnReconnect 1, Call_AfterFunc 5000000000 1,
        Invoke_OnDisconnect 1000 ''Connection closed'', Invoke_OnReconnect 2, Call_AfterFunc 5000000000 2,
        Invoke_OnDisconnect 1000 ''Connection closed'', Invoke_OnReconnect 3, Call_AfterFunc 5000000000 3,
        Invoke_OnDisconnect 1000 ''Connection closed'']
   \<and> reconnectAttempts (fst (run sample_codec
             [ReadLoop_runs [ReadFails (ErrorNew ''EOF'')], ReadLoop_runs [ReadFails (ErrorNew ''EOF'')],
              ReadLoop_runs [ReadFails (ErrorNew ''EOF'')], ReadLoop_runs [ReadFails (ErrorNew ''EOF'')]]
             connected_client)) = 3"
  using C6_no_redial_after_max_attempts
          [of exhausted_client
              "[ReadLoop_runs [ReadFails (CloseError 1006 ''unexpected EOF'')], Timer_fires env_dial_fails]"
              sample_codec]
        C6_no_redial_after_max_attempts
          [of connected_client
              "[ReadLoop_runs [ReadFails (ErrorNew ''EOF'')], ReadLoop_runs [ReadFails (ErrorNew ''EOF'')],
                ReadLoop_runs [ReadFails (ErrorNew ''EOF'')], ReadLoop_runs [ReadFails (ErrorNew ''EOF'')]]"
              sample_codec]
  by (simp add: exhausted_client_eq connected_client_eq sample_client_eq
        sample_options_def all_callbacks_def redial_fails_def
        env_dial_fails_def env_ok_def int64_wrap_def
        handleDisconnect_def cleanup_def and_then_def emit_def scheduleReconnect_def handleError_def
        CloseGoingAway_def CloseNormalClosure_def reconnectTimer_fires_def)

end
